theory Spec2Isabelle
  imports Main "HOL-Library.Word"
begin

unbundle bit_operations_syntax

section \<open>Data model of \<^verbatim>\<open>ppc_simd.h\<close>\<close>

text \<open>
  A vector register holds 128 bits. The header types \<^verbatim>\<open>uint8x16_p\<close>,
  \<^verbatim>\<open>uint16x8_p\<close>, \<^verbatim>\<open>uint32x4_p\<close> and \<^verbatim>\<open>uint64x2_p\<close> are views of the
  same 128 bits, and every cast between them is a reinterpretation. The model keeps one
  representation, the sixteen byte elements in array order: element \<open>i\<close> is the
  \<open>i\<close>-th initialiser of a \<^verbatim>\<open>uint8x16_p\<close> literal and the byte that a native
  load takes from address \<open>p + i\<close>. A cast is then the identity, and an operation on
  wider lanes reads its lanes from the bytes in the byte order of the host.
\<close>

type_synonym byte = "8 word"
type_synonym word32 = "32 word"
type_synonym word64 = "64 word"

datatype uint8x16_p =
  V16 byte byte byte byte  byte byte byte byte  byte byte byte byte  byte byte byte byte

fun bytes_of :: "uint8x16_p \<Rightarrow> byte list" where
  "bytes_of (V16 a0 a1 a2 a3 a4 a5 a6 a7 a8 a9 a10 a11 a12 a13 a14 a15) =
     [a0, a1, a2, a3, a4, a5, a6, a7, a8, a9, a10, a11, a12, a13, a14, a15]"

text \<open>Element \<open>i\<close> of a vector, for \<open>i < 16\<close>.\<close>

definition elem :: "uint8x16_p \<Rightarrow> nat \<Rightarrow> byte" where
  "elem v i = bytes_of v ! i"

text \<open>The vector whose element \<open>i\<close> is \<open>f i\<close>.\<close>

definition vec_of :: "(nat \<Rightarrow> byte) \<Rightarrow> uint8x16_p" where
  "vec_of f = V16 (f 0) (f 1) (f 2) (f 3) (f 4) (f 5) (f 6) (f 7)
                  (f 8) (f 9) (f 10) (f 11) (f 12) (f 13) (f 14) (f 15)"

text \<open>
  The build configuration: the preprocessor symbols the header branches on. The test
  \<^verbatim>\<open>defined(__xlc__) || defined(__xlC__) || defined(__clang__)\<close> comes first in
  every chain and \<^verbatim>\<open>defined(__GNUC__)\<close> second, so a compiler is in exactly one of
  three families.
\<close>

datatype compiler = XLC_or_Clang | GNUC | Unrecognized

record config =
  arch_pwr7 :: bool
  arch_pwr8 :: bool
  family :: compiler
  big_endian :: bool

text \<open>Memory is a store of bytes; an address is an integer.\<close>

type_synonym memory = "int \<Rightarrow> byte"

section \<open>The vector built-ins\<close>

text \<open>
  The built-ins of \<^verbatim>\<open>altivec.h\<close> are not part of the header; they are modelled
  after the AltiVec Technology Programming Environments Manual, which the header cites,
  in terms of array-order elements. On a little-endian host the compilers number the
  elements of a vector in array order too and adjust \<^verbatim>\<open>vec_perm\<close>,
  \<^verbatim>\<open>vec_lvsl\<close>, \<^verbatim>\<open>vec_lvsr\<close>, the loads and the stores to it, so their
  description in elements does not depend on the byte order. \<^verbatim>\<open>vec_sld\<close> and the
  make-up of a wider lane from its bytes do.

  \<^verbatim>\<open>vec_perm(a, b, m)\<close>: element \<open>i\<close> of the result is element
  \<open>m[i] & 0x1F\<close> of the 32 elements of \<open>a\<close> followed by \<open>b\<close>.
\<close>

definition vec_perm :: "uint8x16_p \<Rightarrow> uint8x16_p \<Rightarrow> uint8x16_p \<Rightarrow> uint8x16_p" where
  "vec_perm a b m =
     vec_of (\<lambda>i. let k = unat (elem m i AND 0x1F)
                  in if k < 16 then elem a k else elem b (k - 16))"

text \<open>
  \<^verbatim>\<open>vec_sld(a, b, c)\<close> is the instruction \<^verbatim>\<open>vsldoi\<close>: the registers \<open>a\<close>
  and \<open>b\<close> are concatenated, \<open>a\<close> in the more significant half, and the result is
  the sixteen bytes that start \<open>c\<close> bytes below the most significant byte. The built-in
  is not adjusted to the byte order of the host: the most significant byte of a register
  is element 0 on a big-endian host and element 15 on a little-endian host.

  The count is a literal of four bits, 0 to 15. A call with another count is outside the
  built-in: GCC refuses it, and the header of Clang masks the count. The model gives such
  a call no vector; its outcome is the failure \<open>CountOutOfRange c\<close>.
\<close>

datatype literal_error = CountOutOfRange nat

definition vec_sld ::
  "config \<Rightarrow> uint8x16_p \<Rightarrow> uint8x16_p \<Rightarrow> nat \<Rightarrow> literal_error + uint8x16_p" where
  "vec_sld cfg a b c =
     (if c \<le> 15
      then Inr (if big_endian cfg
                then vec_of (\<lambda>i. if i + c < 16 then elem a (i + c) else elem b (i + c - 16))
                else vec_of (\<lambda>i. if c \<le> i then elem a (i - c) else elem b (16 + i - c)))
      else Inl (CountOutOfRange c))"

subsection \<open>Lanes\<close>

text \<open>
  A 32-bit lane is four consecutive elements and a 64-bit lane eight, read in the byte
  order of the host: most significant byte first on a big-endian host, last on a
  little-endian one. \<open>be32\<close> puts four bytes together, most significant first;
  \<open>byte_of32 w k\<close> is byte \<open>k\<close> of \<open>w\<close>, counted from the least significant.
\<close>

definition be32 :: "byte \<Rightarrow> byte \<Rightarrow> byte \<Rightarrow> byte \<Rightarrow> word32" where
  "be32 a b c d =
     push_bit 24 (ucast a) OR push_bit 16 (ucast b) OR push_bit 8 (ucast c) OR ucast d"

definition byte_of32 :: "word32 \<Rightarrow> nat \<Rightarrow> byte" where
  "byte_of32 w k = ucast (drop_bit (8 * k) w)"

definition byte_of64 :: "word64 \<Rightarrow> nat \<Rightarrow> byte" where
  "byte_of64 w k = ucast (drop_bit (8 * k) w)"

definition lane32 :: "config \<Rightarrow> uint8x16_p \<Rightarrow> nat \<Rightarrow> word32" where
  "lane32 cfg v k =
     (if big_endian cfg
      then be32 (elem v (4 * k)) (elem v (4 * k + 1)) (elem v (4 * k + 2)) (elem v (4 * k + 3))
      else be32 (elem v (4 * k + 3)) (elem v (4 * k + 2)) (elem v (4 * k + 1)) (elem v (4 * k)))"

definition of_lanes32 :: "config \<Rightarrow> (nat \<Rightarrow> word32) \<Rightarrow> uint8x16_p" where
  "of_lanes32 cfg f =
     vec_of (\<lambda>i. byte_of32 (f (i div 4)) (if big_endian cfg then 3 - i mod 4 else i mod 4))"

definition lane64 :: "config \<Rightarrow> uint8x16_p \<Rightarrow> nat \<Rightarrow> word64" where
  "lane64 cfg v k =
     (if big_endian cfg
      then word_cat
             (be32 (elem v (8 * k)) (elem v (8 * k + 1)) (elem v (8 * k + 2)) (elem v (8 * k + 3)))
             (be32 (elem v (8 * k + 4)) (elem v (8 * k + 5)) (elem v (8 * k + 6)) (elem v (8 * k + 7)))
      else word_cat
             (be32 (elem v (8 * k + 7)) (elem v (8 * k + 6)) (elem v (8 * k + 5)) (elem v (8 * k + 4)))
             (be32 (elem v (8 * k + 3)) (elem v (8 * k + 2)) (elem v (8 * k + 1)) (elem v (8 * k))))"

definition of_lanes64 :: "config \<Rightarrow> (nat \<Rightarrow> word64) \<Rightarrow> uint8x16_p" where
  "of_lanes64 cfg f =
     vec_of (\<lambda>i. byte_of64 (f (i div 8)) (if big_endian cfg then 7 - i mod 8 else i mod 8))"

text \<open>
  \<^verbatim>\<open>vec_add\<close> on \<^verbatim>\<open>uint32x4_p\<close> (\<^verbatim>\<open>vadduwm\<close>) adds lane by lane modulo
  \<open>2^32\<close>; on \<^verbatim>\<open>uint64x2_p\<close> (\<^verbatim>\<open>vaddudm\<close>, POWER8) modulo \<open>2^64\<close>.
  \<^verbatim>\<open>vec_addc\<close> (\<^verbatim>\<open>vaddcuw\<close>) gives in each 32-bit lane the carry out of the sum
  of the two lanes, 0 or 1.
\<close>

definition vec_add_u32 :: "config \<Rightarrow> uint8x16_p \<Rightarrow> uint8x16_p \<Rightarrow> uint8x16_p" where
  "vec_add_u32 cfg a b = of_lanes32 cfg (\<lambda>k. lane32 cfg a k + lane32 cfg b k)"

definition vec_add_u64 :: "config \<Rightarrow> uint8x16_p \<Rightarrow> uint8x16_p \<Rightarrow> uint8x16_p" where
  "vec_add_u64 cfg a b = of_lanes64 cfg (\<lambda>k. lane64 cfg a k + lane64 cfg b k)"

definition vec_addc :: "config \<Rightarrow> uint8x16_p \<Rightarrow> uint8x16_p \<Rightarrow> uint8x16_p" where
  "vec_addc cfg a b =
     of_lanes32 cfg
       (\<lambda>k. if 2 ^ 32 \<le> unat (lane32 cfg a k) + unat (lane32 cfg b k) then 1 else 0)"

text \<open>
  \<^verbatim>\<open>vec_all_eq\<close> on \<^verbatim>\<open>uint32x4_p\<close> is 1 when each of the four lanes of the
  first vector equals the same lane of the second, and 0 otherwise.
\<close>

definition vec_all_eq :: "config \<Rightarrow> uint8x16_p \<Rightarrow> uint8x16_p \<Rightarrow> int" where
  "vec_all_eq cfg a b =
     (if lane32 cfg a 0 = lane32 cfg b 0 \<and> lane32 cfg a 1 = lane32 cfg b 1
         \<and> lane32 cfg a 2 = lane32 cfg b 2 \<and> lane32 cfg a 3 = lane32 cfg b 3
      then 1 else 0)"

subsection \<open>Loads and stores\<close>

text \<open>
  \<open>load16 mem ea\<close> is the vector of the sixteen bytes of memory at \<open>ea\<close>, \<open>ea + 1\<close>,
  ..., \<open>ea + 15\<close>, in this order; \<open>store16 v ea mem\<close> is the memory with the sixteen
  elements of \<open>v\<close> at these addresses and every other byte unchanged.
\<close>

definition load16 :: "memory \<Rightarrow> int \<Rightarrow> uint8x16_p" where
  "load16 mem ea = vec_of (\<lambda>i. mem (ea + int i))"

definition store16 :: "uint8x16_p \<Rightarrow> int \<Rightarrow> memory \<Rightarrow> memory" where
  "store16 v ea mem = (\<lambda>a. if ea \<le> a \<and> a < ea + 16 then elem v (nat (a - ea)) else mem a)"

text \<open>
  \<^verbatim>\<open>vec_ld(off, p)\<close> (\<^verbatim>\<open>lvx\<close>) and \<^verbatim>\<open>vec_st(v, off, p)\<close> (\<^verbatim>\<open>stvx\<close>) clear
  the low four bits of the address \<open>p + off\<close> and move the aligned sixteen bytes.
\<close>

definition vec_ld :: "int \<Rightarrow> int \<Rightarrow> memory \<Rightarrow> uint8x16_p" where
  "vec_ld off p mem = load16 mem ((p + off) - (p + off) mod 16)"

definition vec_st :: "uint8x16_p \<Rightarrow> int \<Rightarrow> int \<Rightarrow> memory \<Rightarrow> memory" where
  "vec_st v off p mem = store16 v ((p + off) - (p + off) mod 16) mem"

text \<open>
  \<^verbatim>\<open>vec_lvsl(off, p)\<close> and \<^verbatim>\<open>vec_lvsr(off, p)\<close> give the permute masks for the
  misalignment \<open>sh = (p + off) mod 16\<close>: the elements \<open>sh, sh + 1, ..., sh + 15\<close> and
  \<open>16 - sh, 17 - sh, ..., 31 - sh\<close>.
\<close>

definition vec_lvsl :: "int \<Rightarrow> int \<Rightarrow> uint8x16_p" where
  "vec_lvsl off p = (let sh = nat ((p + off) mod 16) in vec_of (\<lambda>i. of_nat (sh + i)))"

definition vec_lvsr :: "int \<Rightarrow> int \<Rightarrow> uint8x16_p" where
  "vec_lvsr off p = (let sh = nat ((p + off) mod 16) in vec_of (\<lambda>i. of_nat (16 - sh + i)))"

text \<open>
  \<^verbatim>\<open>vec_ste(v, off, p)\<close> stores one element of \<open>v\<close>: the address \<open>p + off\<close> is
  rounded down to the size of the element (1, 2 or 4 bytes for \<^verbatim>\<open>stvebx\<close>,
  \<^verbatim>\<open>stvehx\<close>, \<^verbatim>\<open>stvewx\<close>), and the element stored is the one that lies at this
  address modulo 16 in the register.
\<close>

definition vec_ste_u8 :: "uint8x16_p \<Rightarrow> int \<Rightarrow> int \<Rightarrow> memory \<Rightarrow> memory" where
  "vec_ste_u8 v off p mem =
     (let ea = p + off; eb = nat (ea mod 16)
      in mem(ea := elem v eb))"

definition vec_ste_u16 :: "uint8x16_p \<Rightarrow> int \<Rightarrow> int \<Rightarrow> memory \<Rightarrow> memory" where
  "vec_ste_u16 v off p mem =
     (let ea = (p + off) - (p + off) mod 2; eb = nat (ea mod 16)
      in mem(ea := elem v eb, ea + 1 := elem v (eb + 1)))"

definition vec_ste_u32 :: "uint8x16_p \<Rightarrow> int \<Rightarrow> int \<Rightarrow> memory \<Rightarrow> memory" where
  "vec_ste_u32 v off p mem =
     (let ea = (p + off) - (p + off) mod 4; eb = nat (ea mod 16)
      in mem(ea := elem v eb, ea + 1 := elem v (eb + 1),
             ea + 2 := elem v (eb + 2), ea + 3 := elem v (eb + 3)))"

text \<open>
  \<^verbatim>\<open>vec_xl\<close> and \<^verbatim>\<open>vec_vsx_ld\<close>, \<^verbatim>\<open>vec_xst\<close> and \<^verbatim>\<open>vec_vsx_st\<close> (POWER7)
  move the sixteen bytes at \<open>p + off\<close>, whatever the alignment. \<^verbatim>\<open>vec_xl_be\<close> and
  \<^verbatim>\<open>vec_xst_be\<close> do the same in big-endian element order: on a little-endian host
  element \<open>i\<close> of a byte vector goes with the byte at \<open>p + off + 15 - i\<close>.
\<close>

definition vec_xl :: "int \<Rightarrow> int \<Rightarrow> memory \<Rightarrow> uint8x16_p" where
  "vec_xl off p mem = load16 mem (p + off)"

definition vec_vsx_ld :: "int \<Rightarrow> int \<Rightarrow> memory \<Rightarrow> uint8x16_p" where
  "vec_vsx_ld off p mem = load16 mem (p + off)"

definition vec_xst :: "uint8x16_p \<Rightarrow> int \<Rightarrow> int \<Rightarrow> memory \<Rightarrow> memory" where
  "vec_xst v off p mem = store16 v (p + off) mem"

definition vec_vsx_st :: "uint8x16_p \<Rightarrow> int \<Rightarrow> int \<Rightarrow> memory \<Rightarrow> memory" where
  "vec_vsx_st v off p mem = store16 v (p + off) mem"

definition vec_xl_be :: "config \<Rightarrow> int \<Rightarrow> int \<Rightarrow> memory \<Rightarrow> uint8x16_p" where
  "vec_xl_be cfg off p mem =
     (if big_endian cfg then load16 mem (p + off)
      else vec_of (\<lambda>i. mem (p + off + 15 - int i)))"

definition vec_xst_be :: "config \<Rightarrow> uint8x16_p \<Rightarrow> int \<Rightarrow> int \<Rightarrow> memory \<Rightarrow> memory" where
  "vec_xst_be cfg v off p mem =
     (if big_endian cfg then store16 v (p + off) mem
      else (\<lambda>a. if p + off \<le> a \<and> a < p + off + 16
                then elem v (15 - nat (a - (p + off))) else mem a))"

text \<open>
  Modelled from the spec: \<^verbatim>\<open>IsAlignedOn\<close> is declared in \<^verbatim>\<open>misc.h\<close>, which is
  not among the sources. The specification has the aligned path taken when the address
  is 16-byte aligned, so the test is that the pointer is a multiple of the alignment.
\<close>

definition IsAlignedOn :: "int \<Rightarrow> int \<Rightarrow> bool" where
  "IsAlignedOn ptr alignment = (ptr mod alignment = 0)"

section \<open>Reverse\<close>

definition Reverse :: "uint8x16_p \<Rightarrow> uint8x16_p" where
  "Reverse src =
     (let mask = V16 15 14 13 12  11 10 9 8  7 6 5 4  3 2 1 0
      in vec_perm src src mask)"

section \<open>Loads\<close>

text \<open>
  The overloads of a name are told apart by a suffix: \<open>_off\<close> is the overload that
  takes the byte offset \<^verbatim>\<open>int off\<close>. A load reads the memory it is given; a store
  returns the memory it leaves behind.
\<close>

definition VectorLoad_ALTIVEC :: "int \<Rightarrow> memory \<Rightarrow> uint8x16_p" where
  "VectorLoad_ALTIVEC src mem =
     (if IsAlignedOn src 16 then vec_ld 0 src mem
      else
        let perm = vec_lvsl 0 src;
            low = vec_ld 0 src mem;
            high = vec_ld 15 src mem
        in vec_perm low high perm)"

definition VectorLoad_ALTIVEC_off :: "int \<Rightarrow> int \<Rightarrow> memory \<Rightarrow> uint8x16_p" where
  "VectorLoad_ALTIVEC_off off src mem =
     (if IsAlignedOn src 16 then vec_ld off src mem
      else
        let perm = vec_lvsl off src;
            low = vec_ld off src mem;
            high = vec_ld 15 src mem
        in vec_perm low high perm)"

definition VectorLoad :: "config \<Rightarrow> int \<Rightarrow> memory \<Rightarrow> uint8x16_p" where
  "VectorLoad cfg src mem =
     (if arch_pwr7 cfg
      then (if family cfg = XLC_or_Clang then vec_xl 0 src mem else vec_vsx_ld 0 src mem)
      else VectorLoad_ALTIVEC src mem)"

definition VectorLoad_off :: "config \<Rightarrow> int \<Rightarrow> int \<Rightarrow> memory \<Rightarrow> uint8x16_p" where
  "VectorLoad_off cfg off src mem =
     (if arch_pwr7 cfg
      then (if family cfg = XLC_or_Clang then vec_xl off src mem else vec_vsx_ld off src mem)
      else VectorLoad_ALTIVEC_off off src mem)"

definition VectorLoadBE :: "config \<Rightarrow> int \<Rightarrow> memory \<Rightarrow> uint8x16_p" where
  "VectorLoadBE cfg src mem =
     (if arch_pwr7 cfg
      then (if family cfg = XLC_or_Clang then vec_xl_be cfg 0 src mem
            else if big_endian cfg then vec_vsx_ld 0 src mem
            else Reverse (vec_vsx_ld 0 src mem))
      else (if big_endian cfg then VectorLoad cfg src mem
            else Reverse (VectorLoad cfg src mem)))"

section \<open>Stores\<close>

definition VectorStore_ALTIVEC_off :: "uint8x16_p \<Rightarrow> int \<Rightarrow> int \<Rightarrow> memory \<Rightarrow> memory" where
  "VectorStore_ALTIVEC_off data off dest mem =
     (if IsAlignedOn dest 16 then vec_st data off dest mem
      else
        let perm = vec_perm data data (vec_lvsr off dest);
            mem = vec_ste_u8 perm 0 dest mem;
            mem = vec_ste_u16 perm 1 dest mem;
            mem = vec_ste_u32 perm 3 dest mem;
            mem = vec_ste_u32 perm 4 dest mem;
            mem = vec_ste_u32 perm 8 dest mem;
            mem = vec_ste_u32 perm 12 dest mem;
            mem = vec_ste_u16 perm 14 dest mem;
            mem = vec_ste_u8 perm 15 dest mem
        in mem)"

definition VectorStore :: "config \<Rightarrow> uint8x16_p \<Rightarrow> int \<Rightarrow> memory \<Rightarrow> memory" where
  "VectorStore cfg data dest mem =
     (if arch_pwr7 cfg
      then (if family cfg = XLC_or_Clang then vec_xst data 0 dest mem
            else vec_vsx_st data 0 dest mem)
      else VectorStore_ALTIVEC_off data 0 dest mem)"

definition VectorStore_off :: "config \<Rightarrow> uint8x16_p \<Rightarrow> int \<Rightarrow> int \<Rightarrow> memory \<Rightarrow> memory" where
  "VectorStore_off cfg data off dest mem =
     (if arch_pwr7 cfg
      then (if family cfg = XLC_or_Clang then vec_xst data off dest mem
            else vec_vsx_st data off dest mem)
      else VectorStore_ALTIVEC_off data off dest mem)"

definition VectorStoreBE :: "config \<Rightarrow> uint8x16_p \<Rightarrow> int \<Rightarrow> memory \<Rightarrow> memory" where
  "VectorStoreBE cfg src dest mem =
     (if arch_pwr7 cfg
      then (if family cfg = XLC_or_Clang then vec_xst_be cfg src 0 dest mem
            else if big_endian cfg then vec_vsx_st src 0 dest mem
            else vec_vsx_st (Reverse src) 0 dest mem)
      else (if big_endian cfg then VectorStore cfg src dest mem
            else VectorStore cfg (Reverse src) dest mem))"

text \<open>
  A sequence of \<^verbatim>\<open>vec_ste\<close> of the same register amounts to this: at each address
  of a set, the element of the register that lies at this address modulo 16 is stored.
\<close>

definition store_elems :: "uint8x16_p \<Rightarrow> int set \<Rightarrow> memory \<Rightarrow> memory" where
  "store_elems v S mem = (\<lambda>a. if a \<in> S then elem v (nat (a mod 16)) else mem a)"

section \<open>Octet shifts and rotations\<close>

text \<open>\<^verbatim>\<open>const T zero = {0}\<close>: the first element is 0 and the others are zero-initialised.\<close>

definition zero_vec :: uint8x16_p where
  "zero_vec = V16 0 0 0 0  0 0 0 0  0 0 0 0  0 0 0 0"

text \<open>
  The template argument \<^verbatim>\<open>unsigned int C\<close> is the second argument. The four
  functions end in a call of \<^verbatim>\<open>vec_sld\<close>, so their outcome is a vector or the
  failure of that call.
\<close>

definition VectorShiftLeftOctet ::
  "config \<Rightarrow> nat \<Rightarrow> uint8x16_p \<Rightarrow> literal_error + uint8x16_p" where
  "VectorShiftLeftOctet cfg C vec =
     (let zero = zero_vec
      in if C \<ge> 16 then Inr zero
         else if C = 0 then Inr vec
         else if big_endian cfg then vec_sld cfg vec zero C
         else vec_sld cfg zero vec (16 - C))"

definition VectorShiftRightOctet ::
  "config \<Rightarrow> nat \<Rightarrow> uint8x16_p \<Rightarrow> literal_error + uint8x16_p" where
  "VectorShiftRightOctet cfg C vec =
     (let zero = zero_vec
      in if C \<ge> 16 then Inr zero
         else if C = 0 then Inr vec
         else if big_endian cfg then vec_sld cfg zero vec (16 - C)
         else vec_sld cfg vec zero C)"

definition VectorRotateLeftOctet ::
  "config \<Rightarrow> nat \<Rightarrow> uint8x16_p \<Rightarrow> literal_error + uint8x16_p" where
  "VectorRotateLeftOctet cfg C vec =
     (let R = C AND 0xf
      in if big_endian cfg then vec_sld cfg vec vec R
         else vec_sld cfg vec vec (16 - R))"

definition VectorRotateRightOctet ::
  "config \<Rightarrow> nat \<Rightarrow> uint8x16_p \<Rightarrow> literal_error + uint8x16_p" where
  "VectorRotateRightOctet cfg C vec =
     (let R = C AND 0xf
      in if big_endian cfg then vec_sld cfg vec vec (16 - R)
         else vec_sld cfg vec vec R)"

text \<open>
  One function after another: a failure of the first is the failure of the whole.
\<close>

definition and_then ::
  "literal_error + uint8x16_p \<Rightarrow> (uint8x16_p \<Rightarrow> literal_error + uint8x16_p)
    \<Rightarrow> literal_error + uint8x16_p" where
  "and_then r f = (case r of Inl e \<Rightarrow> Inl e | Inr v \<Rightarrow> f v)"

text \<open>
  The reference for the composition of the two shifts: the vector with its \<open>n\<close> low
  bytes zeroed. Read as a big-endian byte stream, the low bytes of a vector are its
  last elements. \<open>zero_first n\<close> zeroes the \<open>n\<close> first elements instead.
\<close>

definition zero_low :: "nat \<Rightarrow> uint8x16_p \<Rightarrow> uint8x16_p" where
  "zero_low n v = vec_of (\<lambda>i. if i + n < 16 then elem v i else 0)"

definition zero_first :: "nat \<Rightarrow> uint8x16_p \<Rightarrow> uint8x16_p" where
  "zero_first n v = vec_of (\<lambda>i. if i < n then 0 else elem v i)"

section \<open>64-bit addition and comparison\<close>

definition VectorAdd64 :: "config \<Rightarrow> uint8x16_p \<Rightarrow> uint8x16_p \<Rightarrow> uint8x16_p" where
  "VectorAdd64 cfg vec1 vec2 =
     (if arch_pwr8 cfg then vec_add_u64 cfg vec1 vec2
      else
        let cmask = V16 4 5 6 7  16 16 16 16  12 13 14 15  16 16 16 16;
            zero = zero_vec;
            cy = vec_addc cfg vec1 vec2;
            cy = vec_perm cy zero cmask
        in vec_add_u32 cfg (vec_add_u32 cfg vec1 vec2) cy)"

definition VectorEqual :: "config \<Rightarrow> uint8x16_p \<Rightarrow> uint8x16_p \<Rightarrow> bool" where
  "VectorEqual cfg vec1 vec2 = (1 = vec_all_eq cfg vec1 vec2)"

definition VectorNotEqual :: "config \<Rightarrow> uint8x16_p \<Rightarrow> uint8x16_p \<Rightarrow> bool" where
  "VectorNotEqual cfg vec1 vec2 = (0 = vec_all_eq cfg vec1 vec2)"

section \<open>AES and SHA rounds\<close>

text \<open>
  The six functions are declared only under \<^verbatim>\<open>#if defined(_ARCH_PWR8)\<close> (or when
  the documentation is generated); without it no call of them can be built, which is the
  failure \<open>NotDeclared\<close>. With it, each dispatches on the compiler family to a
  built-in of the compiler, and the last branch of the chain is
  \<^verbatim>\<open>CRYPTOPP_ASSERT(0)\<close> with no \<^verbatim>\<open>return\<close>. The built-ins stand for hardware
  instructions and are parameters of the model: the one of XL C/C++ and Clang first, the
  one of GCC second. A call gives a result or one of two failures.
\<close>

text \<open>
  Modelled from the spec: \<^verbatim>\<open>CRYPTOPP_ASSERT\<close> is a macro of the library's
  configuration headers, which are not among the sources. The specification has a failed
  assertion stop the process, which must not go on with an undefined result, so
  \<^verbatim>\<open>CRYPTOPP_ASSERT(0)\<close> is the failure \<open>AssertionFailure\<close>.
\<close>

datatype failure = NotDeclared | AssertionFailure

definition VectorEncrypt ::
  "config \<Rightarrow> (uint8x16_p \<Rightarrow> uint8x16_p \<Rightarrow> uint8x16_p) \<Rightarrow> (uint8x16_p \<Rightarrow> uint8x16_p \<Rightarrow> uint8x16_p)
    \<Rightarrow> uint8x16_p \<Rightarrow> uint8x16_p \<Rightarrow> failure + uint8x16_p" where
  "VectorEncrypt cfg vcipher builtin_crypto_vcipher state key =
     (if \<not> arch_pwr8 cfg then Inl NotDeclared
      else if family cfg = XLC_or_Clang then Inr (vcipher state key)
      else if family cfg = GNUC then Inr (builtin_crypto_vcipher state key)
      else Inl AssertionFailure)"

definition VectorEncryptLast ::
  "config \<Rightarrow> (uint8x16_p \<Rightarrow> uint8x16_p \<Rightarrow> uint8x16_p) \<Rightarrow> (uint8x16_p \<Rightarrow> uint8x16_p \<Rightarrow> uint8x16_p)
    \<Rightarrow> uint8x16_p \<Rightarrow> uint8x16_p \<Rightarrow> failure + uint8x16_p" where
  "VectorEncryptLast cfg vcipherlast builtin_crypto_vcipherlast state key =
     (if \<not> arch_pwr8 cfg then Inl NotDeclared
      else if family cfg = XLC_or_Clang then Inr (vcipherlast state key)
      else if family cfg = GNUC then Inr (builtin_crypto_vcipherlast state key)
      else Inl AssertionFailure)"

definition VectorDecrypt ::
  "config \<Rightarrow> (uint8x16_p \<Rightarrow> uint8x16_p \<Rightarrow> uint8x16_p) \<Rightarrow> (uint8x16_p \<Rightarrow> uint8x16_p \<Rightarrow> uint8x16_p)
    \<Rightarrow> uint8x16_p \<Rightarrow> uint8x16_p \<Rightarrow> failure + uint8x16_p" where
  "VectorDecrypt cfg vncipher builtin_crypto_vncipher state key =
     (if \<not> arch_pwr8 cfg then Inl NotDeclared
      else if family cfg = XLC_or_Clang then Inr (vncipher state key)
      else if family cfg = GNUC then Inr (builtin_crypto_vncipher state key)
      else Inl AssertionFailure)"

definition VectorDecryptLast ::
  "config \<Rightarrow> (uint8x16_p \<Rightarrow> uint8x16_p \<Rightarrow> uint8x16_p) \<Rightarrow> (uint8x16_p \<Rightarrow> uint8x16_p \<Rightarrow> uint8x16_p)
    \<Rightarrow> uint8x16_p \<Rightarrow> uint8x16_p \<Rightarrow> failure + uint8x16_p" where
  "VectorDecryptLast cfg vncipherlast builtin_crypto_vncipherlast state key =
     (if \<not> arch_pwr8 cfg then Inl NotDeclared
      else if family cfg = XLC_or_Clang then Inr (vncipherlast state key)
      else if family cfg = GNUC then Inr (builtin_crypto_vncipherlast state key)
      else Inl AssertionFailure)"

text \<open>The template arguments \<^verbatim>\<open>int func, int subfunc\<close> come before the vector.\<close>

definition VectorSHA256 ::
  "config \<Rightarrow> (uint8x16_p \<Rightarrow> int \<Rightarrow> int \<Rightarrow> uint8x16_p) \<Rightarrow> (uint8x16_p \<Rightarrow> int \<Rightarrow> int \<Rightarrow> uint8x16_p)
    \<Rightarrow> int \<Rightarrow> int \<Rightarrow> uint8x16_p \<Rightarrow> failure + uint8x16_p" where
  "VectorSHA256 cfg vshasigmaw builtin_crypto_vshasigmaw func subfunc vec =
     (if \<not> arch_pwr8 cfg then Inl NotDeclared
      else if family cfg = XLC_or_Clang then Inr (vshasigmaw vec func subfunc)
      else if family cfg = GNUC then Inr (builtin_crypto_vshasigmaw vec func subfunc)
      else Inl AssertionFailure)"

definition VectorSHA512 ::
  "config \<Rightarrow> (uint8x16_p \<Rightarrow> int \<Rightarrow> int \<Rightarrow> uint8x16_p) \<Rightarrow> (uint8x16_p \<Rightarrow> int \<Rightarrow> int \<Rightarrow> uint8x16_p)
    \<Rightarrow> int \<Rightarrow> int \<Rightarrow> uint8x16_p \<Rightarrow> failure + uint8x16_p" where
  "VectorSHA512 cfg vshasigmad builtin_crypto_vshasigmad func subfunc vec =
     (if \<not> arch_pwr8 cfg then Inl NotDeclared
      else if family cfg = XLC_or_Clang then Inr (vshasigmad vec func subfunc)
      else if family cfg = GNUC then Inr (builtin_crypto_vshasigmad vec func subfunc)
      else Inl AssertionFailure)"

section \<open>Inputs for the examples\<close>

text \<open>
  Two memories, one that holds at each address the low byte of the address and one that
  holds zeros, and stand-ins for the built-ins of the two compiler families, which differ
  so that the examples tell which of them was called.
\<close>

definition address_memory :: memory where
  "address_memory a = of_int a"

definition zero_memory :: memory where
  "zero_memory a = 0"





section \<open>Vectors and their elements\<close>

lemma elem_vec_of: "i < 16 \<Longrightarrow> elem (vec_of f) i = f i"
proof -
  assume "i < 16"
  then have "i \<in> {0, 1, 2, 3, 4, 5, 6, 7, 8, 9, 10, 11, 12, 13, 14, 15}"
    by (simp only: insert_iff empty_iff) arith
  then show ?thesis
    by (auto simp: elem_def vec_of_def)
qed

lemma vec_of_elem: "vec_of (elem v) = v"
  by (cases v) (simp add: vec_of_def elem_def)

lemma vec_of_cong: "(\<And>i. i < 16 \<Longrightarrow> f i = g i) \<Longrightarrow> vec_of f = vec_of g"
  by (simp add: vec_of_def)

lemma vec_eqI: "(\<And>i. i < 16 \<Longrightarrow> elem a i = elem b i) \<Longrightarrow> a = b"
  using vec_of_cong [of "elem a" "elem b"] by (simp add: vec_of_elem)

lemma vec_of_eqI: "(\<And>i. i < 16 \<Longrightarrow> f i = elem v i) \<Longrightarrow> vec_of f = v"
  using vec_of_cong [of f "elem v"] by (simp add: vec_of_elem)

lemma elem_zero_vec: "i < 16 \<Longrightarrow> elem zero_vec i = 0"
  using elem_vec_of [of i "\<lambda>_. 0"] by (simp add: zero_vec_def vec_of_def)

lemma zero_vec_eq: "zero_vec = vec_of (\<lambda>_. 0)"
  by (simp add: zero_vec_def vec_of_def)

section \<open>Reversal\<close>

text \<open>
  C8. Reversing the bytes of a vector twice gives the vector back: \<open>Reverse\<close>, the
  self-permute with the mask 15, 14, ..., 0, is an involution.
\<close>

theorem Reverse_involution: "Reverse (Reverse v) = v"
  by (cases v) (simp add: Reverse_def vec_perm_def vec_of_def elem_def)

section \<open>Octet shifts\<close>

text \<open>
  The shifts give \<^verbatim>\<open>vec_sld\<close> counts from 1 to 15 only, so they always return a
  vector. On either byte order the left shift by \<open>C\<close> moves element \<open>i + C\<close> to
  element \<open>i\<close> and fills with zeros from the end, and the right shift moves element
  \<open>i - C\<close> to element \<open>i\<close> and fills with zeros from the start: the exchange of the
  operands and the count \<open>16 - C\<close> make up for the byte order of \<open>vec_sld\<close>.
\<close>

lemma VectorShiftLeftOctet_elems:
  "VectorShiftLeftOctet cfg C v = Inr (vec_of (\<lambda>i. if i + C < 16 then elem v (i + C) else 0))"
proof -
  consider "16 \<le> C" | "C = 0" | "0 < C" "C < 16" "big_endian cfg"
    | "0 < C" "C < 16" "\<not> big_endian cfg"
    by linarith
  then show ?thesis
  proof cases
    case 1
    then show ?thesis
      by (simp add: VectorShiftLeftOctet_def zero_vec_eq)
  next
    case 2
    then show ?thesis
      by (simp add: VectorShiftLeftOctet_def vec_of_eqI)
  next
    case 3
    then show ?thesis
      by (auto simp add: VectorShiftLeftOctet_def vec_sld_def Let_def elem_zero_vec
          intro!: vec_of_cong)
  next
    case 4
    then show ?thesis
      by (auto simp add: VectorShiftLeftOctet_def vec_sld_def Let_def elem_zero_vec
          intro!: vec_of_cong)
  qed
qed

lemma VectorShiftRightOctet_elems:
  "VectorShiftRightOctet cfg C v = Inr (vec_of (\<lambda>i. if C \<le> i then elem v (i - C) else 0))"
proof -
  consider "16 \<le> C" | "C = 0" | "0 < C" "C < 16" "big_endian cfg"
    | "0 < C" "C < 16" "\<not> big_endian cfg"
    by linarith
  then show ?thesis
  proof cases
    case 1
    then show ?thesis
      by (auto simp add: VectorShiftRightOctet_def zero_vec_eq intro!: vec_of_cong)
  next
    case 2
    then show ?thesis
      by (simp add: VectorShiftRightOctet_def vec_of_eqI)
  next
    case 3
    then show ?thesis
      by (auto simp add: VectorShiftRightOctet_def vec_sld_def Let_def elem_zero_vec
          intro!: vec_of_cong)
  next
    case 4
    then show ?thesis
      by (auto simp add: VectorShiftRightOctet_def vec_sld_def Let_def elem_zero_vec
          intro!: vec_of_cong)
  qed
qed

text \<open>
  C5, as stated: for \<open>C\<close> in 0..15 the left shift of the right shift by \<open>C\<close> is the
  vector with its low \<open>16 - C\<close> bytes zeroed and the other bytes kept. This fails. On a
  big-endian host with \<open>C = 4\<close> the composition keeps the first twelve elements of
  1, 2, ..., 16 and zeroes the last four; zeroing twelve bytes, at whichever end, gives a
  different vector.
\<close>

theorem shift_roundtrip_counterexample:
  "and_then (VectorShiftRightOctet \<lparr>arch_pwr7 = False, arch_pwr8 = False, family = GNUC, big_endian = True\<rparr> 4
        (V16 1 2 3 4  5 6 7 8  9 10 11 12  13 14 15 16))
      (VectorShiftLeftOctet \<lparr>arch_pwr7 = False, arch_pwr8 = False, family = GNUC, big_endian = True\<rparr> 4)
     \<noteq> Inr (zero_low (16 - 4) (V16 1 2 3 4  5 6 7 8  9 10 11 12  13 14 15 16))
   \<and> and_then (VectorShiftRightOctet \<lparr>arch_pwr7 = False, arch_pwr8 = False, family = GNUC, big_endian = True\<rparr> 4
        (V16 1 2 3 4  5 6 7 8  9 10 11 12  13 14 15 16))
      (VectorShiftLeftOctet \<lparr>arch_pwr7 = False, arch_pwr8 = False, family = GNUC, big_endian = True\<rparr> 4)
     \<noteq> Inr (zero_first (16 - 4) (V16 1 2 3 4  5 6 7 8  9 10 11 12  13 14 15 16))
   \<and> and_then (VectorShiftRightOctet \<lparr>arch_pwr7 = False, arch_pwr8 = False, family = GNUC, big_endian = True\<rparr> 4
        (V16 1 2 3 4  5 6 7 8  9 10 11 12  13 14 15 16))
      (VectorShiftLeftOctet \<lparr>arch_pwr7 = False, arch_pwr8 = False, family = GNUC, big_endian = True\<rparr> 4)
     = Inr (V16 1 2 3 4  5 6 7 8  9 10 11 12  0 0 0 0)
   \<and> zero_low (16 - 4) (V16 1 2 3 4  5 6 7 8  9 10 11 12  13 14 15 16)
     = V16 1 2 3 4  0 0 0 0  0 0 0 0  0 0 0 0
   \<and> zero_first (16 - 4) (V16 1 2 3 4  5 6 7 8  9 10 11 12  13 14 15 16)
     = V16 0 0 0 0  0 0 0 0  0 0 0 0  13 14 15 16"
  by (simp add: and_then_def VectorShiftLeftOctet_def VectorShiftRightOctet_def vec_sld_def
      zero_vec_def zero_low_def zero_first_def vec_of_def elem_def)

text \<open>
  C5, amended: for every vector \<open>v\<close>, every count \<open>C\<close> and either byte order, the left
  shift of the right shift by \<open>C\<close> returns \<open>v\<close> with its low \<open>C\<close> bytes zeroed (the
  last \<open>C\<close> bytes of the big-endian byte stream) and the other \<open>16 - C\<close> bytes kept.
\<close>

theorem shift_roundtrip:
  "and_then (VectorShiftRightOctet cfg C v) (VectorShiftLeftOctet cfg C) = Inr (zero_low C v)"
proof -
  have "vec_of (\<lambda>i. if i + C < 16
          then elem (vec_of (\<lambda>i. if C \<le> i then elem v (i - C) else 0)) (i + C) else 0)
      = zero_low C v"
    unfolding zero_low_def by (rule vec_of_cong) (simp add: elem_vec_of)
  then show ?thesis
    by (simp add: and_then_def VectorShiftRightOctet_elems VectorShiftLeftOctet_elems)
qed

text \<open>
  C7. A shift by a count of 16 or more, left or right, gives the zero vector, and a shift
  by 0 gives the vector back.
\<close>

theorem shift_out_of_range_and_zero:
  "(16 \<le> C \<longrightarrow> VectorShiftLeftOctet cfg C v = Inr zero_vec
                \<and> VectorShiftRightOctet cfg C v = Inr zero_vec)
   \<and> VectorShiftLeftOctet cfg 0 v = Inr v \<and> VectorShiftRightOctet cfg 0 v = Inr v"
  by (simp add: VectorShiftLeftOctet_def VectorShiftRightOctet_def)

theorem shift_out_of_range_and_zero_witness:
  "(16::nat) \<le> 255
   \<and> VectorShiftLeftOctet \<lparr>arch_pwr7 = True, arch_pwr8 = True, family = GNUC, big_endian = False\<rparr> 255
       (V16 1 2 3 4  5 6 7 8  9 10 11 12  13 14 15 16) = Inr zero_vec
   \<and> VectorShiftRightOctet \<lparr>arch_pwr7 = True, arch_pwr8 = True, family = GNUC, big_endian = False\<rparr> 255
       (V16 1 2 3 4  5 6 7 8  9 10 11 12  13 14 15 16) = Inr zero_vec"
  using shift_out_of_range_and_zero
    [of 255 "\<lparr>arch_pwr7 = True, arch_pwr8 = True, family = GNUC, big_endian = False\<rparr>"
        "V16 1 2 3 4  5 6 7 8  9 10 11 12  13 14 15 16"]
  by simp

section \<open>Octet rotations\<close>

text \<open>
  \<^verbatim>\<open>R = C & 0xf\<close> is \<open>C mod 16\<close>. One byte order gives \<^verbatim>\<open>vec_sld\<close> the count
  \<open>R\<close>, which is in its range; the other gives it \<open>16 - R\<close>, which is in its range
  unless \<open>R = 0\<close>.
\<close>

lemma and_0xf: "(C :: nat) AND 0xf = C mod 16"
proof -
  have "(0xf :: nat) = mask 4"
    by (simp add: mask_eq_exp_minus_1)
  then have "C AND 0xf = take_bit 4 C"
    by (simp add: take_bit_eq_mask)
  then show ?thesis
    by (simp add: take_bit_eq_mod)
qed

text \<open>
  Where the count is in range the rotation is right on either byte order: the left
  rotation moves element \<open>(i + C) mod 16\<close> to element \<open>i\<close>, the right rotation
  element \<open>(i + 16 - C mod 16) mod 16\<close>.
\<close>

lemma mod16_wrap: "n < 32 \<Longrightarrow> n mod 16 = (if n < 16 then n else n - (16::nat))"
  by (cases "n < 16") (simp_all add: le_mod_geq)

lemma VectorRotateLeftOctet_elems:
  assumes "big_endian cfg \<or> C mod 16 \<noteq> 0"
  shows "VectorRotateLeftOctet cfg C v = Inr (vec_of (\<lambda>i. elem v ((i + C mod 16) mod 16)))"
proof -
  define R where "R = C mod 16"
  have R: "R < 16"
    by (simp add: R_def)
  have wrap: "(i + R) mod 16 = (if i + R < 16 then i + R else i + R - 16)" if "i < 16" for i
    using that R by (intro mod16_wrap) simp
  show ?thesis
  proof (cases "big_endian cfg")
    case True
    with R show ?thesis
      unfolding VectorRotateLeftOctet_def and_0xf R_def [symmetric] Let_def vec_sld_def
      by (auto simp add: wrap intro!: vec_of_cong)
  next
    case False
    with assms have "0 < R"
      by (simp add: R_def)
    with False R show ?thesis
      unfolding VectorRotateLeftOctet_def and_0xf R_def [symmetric] Let_def vec_sld_def
      by (auto simp add: wrap intro!: vec_of_cong)
  qed
qed

lemma VectorRotateRightOctet_elems:
  assumes "\<not> big_endian cfg \<or> C mod 16 \<noteq> 0"
  shows "VectorRotateRightOctet cfg C v
     = Inr (vec_of (\<lambda>i. elem v ((i + 16 - C mod 16) mod 16)))"
proof -
  define R where "R = C mod 16"
  have R: "R < 16"
    by (simp add: R_def)
  have wrap: "(i + 16 - R) mod 16 = (if i + 16 - R < 16 then i + 16 - R else i + 16 - R - 16)"
    if "i < 16" for i
    using that R by (intro mod16_wrap) simp
  show ?thesis
  proof (cases "big_endian cfg")
    case True
    with assms have "0 < R"
      by (simp add: R_def)
    with True R show ?thesis
      unfolding VectorRotateRightOctet_def and_0xf R_def [symmetric] Let_def vec_sld_def
      by (auto simp add: wrap intro!: vec_of_cong)
  next
    case False
    with R show ?thesis
      unfolding VectorRotateRightOctet_def and_0xf R_def [symmetric] Let_def vec_sld_def
      by (auto simp add: wrap add.commute intro!: vec_of_cong)
  qed
qed

text \<open>
  At the counts 0 and 16 the left rotation on a big-endian host and the right rotation on
  a little-endian host call \<^verbatim>\<open>vec_sld\<close> with the count 0 and return the vector.
\<close>

lemma rotate_identity_in_range:
  "(big_endian cfg \<longrightarrow>
      VectorRotateLeftOctet cfg 0 v = Inr v \<and> VectorRotateLeftOctet cfg 16 v = Inr v)
   \<and> (\<not> big_endian cfg \<longrightarrow>
      VectorRotateRightOctet cfg 0 v = Inr v \<and> VectorRotateRightOctet cfg 16 v = Inr v)"
  by (simp add: VectorRotateLeftOctet_def VectorRotateRightOctet_def vec_sld_def vec_of_eqI)

text \<open>
  On the other byte order the count they give to \<^verbatim>\<open>vec_sld\<close> is 16, for every
  vector.
\<close>

lemma rotate_count_16:
  "(\<not> big_endian cfg \<longrightarrow>
      VectorRotateLeftOctet cfg 0 v = Inl (CountOutOfRange 16)
      \<and> VectorRotateLeftOctet cfg 16 v = Inl (CountOutOfRange 16))
   \<and> (big_endian cfg \<longrightarrow>
      VectorRotateRightOctet cfg 0 v = Inl (CountOutOfRange 16)
      \<and> VectorRotateRightOctet cfg 16 v = Inl (CountOutOfRange 16))"
  by (simp add: VectorRotateLeftOctet_def VectorRotateRightOctet_def vec_sld_def)

text \<open>
  C6. A left rotation by 16 or by 0 octets returns the vector, on a big-endian and on a
  little-endian host, the amount being always reduced modulo 16. The header reduces
  \<open>C\<close> to \<open>R\<close> and the shifts of the same header return at \<open>C = 0\<close> before they
  form \<open>16 - C\<close>, but the left rotation on a little-endian host forms \<open>16 - R\<close> with
  no such case: at \<open>C = 0\<close> and at \<open>C = 16\<close> it calls \<^verbatim>\<open>vec_sld\<close> with the count
  16, which is not a count of the built-in, and does not return the vector it was given.
  On a big-endian host it does.
\<close>

theorem rotate_left_little_endian_failing_input:
  "VectorRotateLeftOctet \<lparr>arch_pwr7 = True, arch_pwr8 = True, family = GNUC, big_endian = False\<rparr> 0
       (V16 1 2 3 4  5 6 7 8  9 10 11 12  13 14 15 16) = Inl (CountOutOfRange 16)
   \<and> VectorRotateLeftOctet \<lparr>arch_pwr7 = True, arch_pwr8 = True, family = GNUC, big_endian = False\<rparr> 16
       (V16 1 2 3 4  5 6 7 8  9 10 11 12  13 14 15 16) = Inl (CountOutOfRange 16)
   \<and> VectorRotateLeftOctet \<lparr>arch_pwr7 = True, arch_pwr8 = True, family = GNUC, big_endian = False\<rparr> 0
       (V16 1 2 3 4  5 6 7 8  9 10 11 12  13 14 15 16)
     \<noteq> Inr (V16 1 2 3 4  5 6 7 8  9 10 11 12  13 14 15 16)
   \<and> VectorRotateLeftOctet \<lparr>arch_pwr7 = True, arch_pwr8 = True, family = GNUC, big_endian = True\<rparr> 0
       (V16 1 2 3 4  5 6 7 8  9 10 11 12  13 14 15 16)
     = Inr (V16 1 2 3 4  5 6 7 8  9 10 11 12  13 14 15 16)
   \<and> VectorRotateLeftOctet \<lparr>arch_pwr7 = True, arch_pwr8 = True, family = GNUC, big_endian = True\<rparr> 16
       (V16 1 2 3 4  5 6 7 8  9 10 11 12  13 14 15 16)
     = Inr (V16 1 2 3 4  5 6 7 8  9 10 11 12  13 14 15 16)"
  by (simp add: VectorRotateLeftOctet_def vec_sld_def vec_of_def elem_def)

section \<open>Lanes and bytes\<close>

lemma byte_bit_high: "8 \<le> n \<Longrightarrow> \<not> bit (b :: byte) n"
  by (auto dest: bit_imp_le_length)

lemma be32_bytes: "be32 (byte_of32 w 3) (byte_of32 w 2) (byte_of32 w (Suc 0)) (byte_of32 w 0) = w"
proof (rule bit_word_eqI)
  fix n assume "n < LENGTH(32)"
  then consider "n < 8" | "8 \<le> n" "n < 16" | "16 \<le> n" "n < 24" | "24 \<le> n" "n < 32"
    by fastforce
  then show "bit (be32 (byte_of32 w 3) (byte_of32 w 2) (byte_of32 w (Suc 0)) (byte_of32 w 0)) n = bit w n"
    by cases (auto simp add: be32_def byte_of32_def bit_simps)
qed

lemma byte_of32_be32:
  "byte_of32 (be32 a b c d) 0 = d" "byte_of32 (be32 a b c d) (Suc 0) = c"
  "byte_of32 (be32 a b c d) 2 = b" "byte_of32 (be32 a b c d) 3 = a"
  by (rule bit_word_eqI; simp add: be32_def byte_of32_def bit_simps byte_bit_high)+

lemma lane32_of_lanes32: "k < 4 \<Longrightarrow> lane32 cfg (of_lanes32 cfg f) k = f k"
proof -
  assume "k < 4"
  then have "k = 0 \<or> k = 1 \<or> k = 2 \<or> k = 3"
    by arith
  then show ?thesis
    by (elim disjE)
      (simp_all add: lane32_def of_lanes32_def elem_vec_of be32_bytes numeral_2_eq_2 [symmetric])
qed

lemma of_lanes32_lane32: "of_lanes32 cfg (lane32 cfg v) = v"
  by (cases v)
    (simp add: of_lanes32_def lane32_def vec_of_def elem_def byte_of32_be32
      numeral_2_eq_2 [symmetric])

lemma byte_of64_cat:
  "byte_of64 (word_cat (h :: word32) (l :: word32)) k =
     (if k < 4 then byte_of32 l k else if k < 8 then byte_of32 h (k - 4) else 0)"
proof -
  have "\<not> k < 4 \<Longrightarrow> 8 * k + n - 32 = 8 * (k - 4) + n" for n
    by arith
  then show ?thesis
    by (intro bit_word_eqI) (auto simp add: byte_of64_def byte_of32_def bit_simps)
qed

lemma of_lanes64_lane64: "of_lanes64 cfg (lane64 cfg v) = v"
  by (cases v)
    (simp add: of_lanes64_def lane64_def vec_of_def elem_def byte_of64_cat byte_of32_be32
      numeral_2_eq_2 [symmetric])

lemma of_lanes64_cong: "(\<And>k. k < 2 \<Longrightarrow> f k = g k) \<Longrightarrow> of_lanes64 cfg f = of_lanes64 cfg g"
  unfolding of_lanes64_def
  apply (rule vec_of_cong)
  subgoal for i
    apply (subgoal_tac "i div 8 < 2")
     apply simp
    apply arith
    done
  done

lemma lane64_cat:
  "lane64 cfg v k =
     (if big_endian cfg then word_cat (lane32 cfg v (2 * k)) (lane32 cfg v (2 * k + 1))
      else word_cat (lane32 cfg v (2 * k + 1)) (lane32 cfg v (2 * k)))"
  by (simp add: lane64_def lane32_def algebra_simps)

section \<open>Addition in 64-bit lanes\<close>

text \<open>
  The sum of two 64-bit values, each made of a high and a low 32-bit half, has as low
  half the sum of the low halves and as high half the sum of the high halves plus the
  carry out of the low halves.
\<close>

lemma uint_word_cat_32: "uint (word_cat (h :: 32 word) (l :: 32 word) :: 64 word) = uint h * 2 ^ 32 + uint l"
proof -
  have b: "uint h < 2 ^ 32" "uint l < 2 ^ 32" "0 \<le> uint h" "0 \<le> uint l"
    using uint_lt2p [of h] uint_lt2p [of l] by simp_all
  then have "uint h * 2 ^ 32 < 2 ^ 64" "0 \<le> uint h * 2 ^ 32"
    "uint h * 2 ^ 32 + uint l < 2 ^ 64" "0 \<le> uint h * 2 ^ 32 + uint l"
    by simp_all
  then show ?thesis
    by (simp add: word_cat_eq push_bit_eq_mult uint_word_ariths uint_up_ucast is_up)
qed

lemma shift_mod: "((s :: int) mod 2 ^ 32) * 2 ^ 32 = (s * 2 ^ 32) mod 2 ^ 64"
proof -
  have "(2::int) ^ 64 = 2 ^ 32 * 2 ^ 32"
    by simp
  then show ?thesis
    by (simp only: mult_mod_left)
qed

lemma carry_nat_int:
  fixes l1 l2 :: "32 word"
  shows "(2 ^ 32 \<le> unat l1 + unat l2) = (2 ^ 32 \<le> uint l1 + uint l2)"
proof -
  have "int (unat l1 + unat l2) = uint l1 + uint l2"
    by simp
  moreover have "(2 ^ 32 \<le> unat l1 + unat l2) = ((2::int) ^ 32 \<le> int (unat l1 + unat l2))"
    by (simp only: of_nat_le_iff [symmetric, where ?'a = int] of_nat_power of_nat_numeral)
  ultimately show ?thesis by simp
qed

lemma word_cat_add:
  fixes h1 h2 l1 l2 :: "32 word"
  shows "(word_cat h1 l1 :: 64 word) + word_cat h2 l2 =
     word_cat (h1 + h2 + (if 2 ^ 32 \<le> unat l1 + unat l2 then 1 else 0)) (l1 + l2)"
proof -
  define c :: int where "c = (if 2 ^ 32 \<le> uint l1 + uint l2 then 1 else 0)"
  define cw :: "32 word" where "cw = (if 2 ^ 32 \<le> unat l1 + unat l2 then 1 else 0)"
  have cw: "uint cw = c"
    unfolding c_def cw_def carry_nat_int by simp
  have lo: "uint (l1 + l2) = uint l1 + uint l2 - c * 2 ^ 32"
    by (simp add: uint_plus_if' c_def)
  have hi: "uint (h1 + h2 + cw) * 2 ^ 32 = ((uint h1 + uint h2 + c) * 2 ^ 32) mod 2 ^ 64"
    unfolding shift_mod [symmetric] cw [symmetric] by (simp add: uint_word_ariths mod_simps)
  have "uint ((word_cat h1 l1 :: 64 word) + word_cat h2 l2)
      = (uint h1 * 2 ^ 32 + uint l1 + (uint h2 * 2 ^ 32 + uint l2)) mod 2 ^ 64"
    by (simp add: uint_word_ariths uint_word_cat_32)
  also have "uint h1 * 2 ^ 32 + uint l1 + (uint h2 * 2 ^ 32 + uint l2)
      = (uint h1 + uint h2 + c) * 2 ^ 32 + (uint l1 + uint l2 - c * 2 ^ 32)"
    by (simp add: algebra_simps)
  also have "\<dots> mod 2 ^ 64
      = (((uint h1 + uint h2 + c) * 2 ^ 32) mod 2 ^ 64 + (uint l1 + uint l2 - c * 2 ^ 32)) mod 2 ^ 64"
    by (simp only: mod_add_left_eq)
  also have "\<dots> = (uint (h1 + h2 + cw) * 2 ^ 32 + uint (l1 + l2)) mod 2 ^ 64"
    by (simp only: hi lo)
  also have "\<dots> = uint (word_cat (h1 + h2 + cw) (l1 + l2) :: 64 word)"
    using uint_lt2p [of "word_cat (h1 + h2 + cw) (l1 + l2) :: 64 word"]
    by (simp add: uint_word_cat_32)
  finally show ?thesis
    by (simp add: word_uint_eq_iff cw_def)
qed

lemma carry_lanes:
  "lane32 cfg (vec_perm cy zero_vec (V16 4 5 6 7  16 16 16 16  12 13 14 15  16 16 16 16)) 0 = lane32 cfg cy 1"
  "lane32 cfg (vec_perm cy zero_vec (V16 4 5 6 7  16 16 16 16  12 13 14 15  16 16 16 16)) (Suc 0) = 0"
  "lane32 cfg (vec_perm cy zero_vec (V16 4 5 6 7  16 16 16 16  12 13 14 15  16 16 16 16)) 1 = 0"
  "lane32 cfg (vec_perm cy zero_vec (V16 4 5 6 7  16 16 16 16  12 13 14 15  16 16 16 16)) 2 = lane32 cfg cy 3"
  "lane32 cfg (vec_perm cy zero_vec (V16 4 5 6 7  16 16 16 16  12 13 14 15  16 16 16 16)) 3 = 0"
  by (cases cy; simp add: lane32_def vec_perm_def vec_of_def elem_def zero_vec_def be32_def)+

lemma VectorAdd64_lanes_be:
  assumes "big_endian cfg" "\<not> arch_pwr8 cfg" "k < 2"
  shows "lane64 cfg (VectorAdd64 cfg a b) k = lane64 cfg a k + lane64 cfg b k"
proof -
  from \<open>k < 2\<close> have "k = 0 \<or> k = 1" by arith
  then show ?thesis
    using assms(1,2)
    by (elim disjE)
      (simp_all add: lane64_cat VectorAdd64_def vec_add_u32_def vec_addc_def
        lane32_of_lanes32 carry_lanes word_cat_add)
qed

text \<open>
  On a big-endian host the path without the native 64-bit add is the addition modulo
  \<open>2^64\<close> in each of the two 64-bit lanes, bit for bit: elements 1 and 3 are the low
  halves of the lanes, and the carry mask moves their carries into elements 0 and 2, the
  high halves.
\<close>

lemma VectorAdd64_big_endian:
  assumes "big_endian cfg" and "\<not> arch_pwr8 cfg"
  shows "VectorAdd64 cfg vec1 vec2 = of_lanes64 cfg (\<lambda>k. lane64 cfg vec1 k + lane64 cfg vec2 k)"
proof -
  have "VectorAdd64 cfg vec1 vec2 = of_lanes64 cfg (lane64 cfg (VectorAdd64 cfg vec1 vec2))"
    by (simp add: of_lanes64_lane64)
  also have "\<dots> = of_lanes64 cfg (\<lambda>k. lane64 cfg vec1 k + lane64 cfg vec2 k)"
    by (rule of_lanes64_cong) (simp add: VectorAdd64_lanes_be assms)
  finally show ?thesis .
qed

text \<open>
  There, adding 1 to a lane that holds \<open>0x00000000FFFFFFFF\<close> gives
  \<open>0x0000000100000000\<close> and leaves the other lane as it was.
\<close>

lemma VectorAdd64_big_endian_example:
  "VectorAdd64 \<lparr>arch_pwr7 = False, arch_pwr8 = False, family = GNUC, big_endian = True\<rparr>
        (V16 0 0 0 0  0xFF 0xFF 0xFF 0xFF  1 2 3 4  5 6 7 8)
        (V16 0 0 0 0  0 0 0 1  0 0 0 0  0 0 0 0)
      = V16 0 0 0 1  0 0 0 0  1 2 3 4  5 6 7 8"
  using VectorAdd64_big_endian
    [of "\<lparr>arch_pwr7 = False, arch_pwr8 = False, family = GNUC, big_endian = True\<rparr>"
        "V16 0 0 0 0  0xFF 0xFF 0xFF 0xFF  1 2 3 4  5 6 7 8"
        "V16 0 0 0 0  0 0 0 1  0 0 0 0  0 0 0 0"]
  by (simp add: of_lanes64_def lane64_def be32_def byte_of64_def
      vec_of_def elem_def word_cat_eq)

text \<open>
  With the native add the function is the 64-bit addition by definition, on either byte
  order.
\<close>

lemma VectorAdd64_pwr8:
  "arch_pwr8 cfg \<Longrightarrow>
     VectorAdd64 cfg vec1 vec2 = of_lanes64 cfg (\<lambda>k. lane64 cfg vec1 k + lane64 cfg vec2 k)"
  by (simp add: VectorAdd64_def vec_add_u64_def)

text \<open>
  C4. Without the native 64-bit add, \<open>VectorAdd64\<close> is the addition modulo \<open>2^64\<close>
  in each of the two 64-bit lanes; adding 1 to a lane that holds
  \<open>0x00000000FFFFFFFF\<close> gives \<open>0x0000000100000000\<close>. The header documents the
  function so (the vectors are added as \<^verbatim>\<open>uint64x2_p\<close> quantities) and the path
  with the native add does it on either byte order, but the path without it has no test
  of the byte order. On a little-endian host built without \<^verbatim>\<open>_ARCH_PWR8\<close> the low
  half of the first lane is element 0: the first lane of the first vector below holds
  \<open>0x00000000FFFFFFFF\<close>, that of the second holds 1, the native add gives
  \<open>0x0000000100000000\<close>, and \<open>VectorAdd64\<close> gives 0, the carry out of element 0
  being dropped by the carry mask.
\<close>

theorem VectorAdd64_little_endian_failing_input:
  "VectorAdd64 \<lparr>arch_pwr7 = True, arch_pwr8 = False, family = GNUC, big_endian = False\<rparr>
      (V16 0xFF 0xFF 0xFF 0xFF  0 0 0 0  0 0 0 0  0 0 0 0)
      (V16 1 0 0 0  0 0 0 0  0 0 0 0  0 0 0 0)
     \<noteq> vec_add_u64 \<lparr>arch_pwr7 = True, arch_pwr8 = False, family = GNUC, big_endian = False\<rparr>
      (V16 0xFF 0xFF 0xFF 0xFF  0 0 0 0  0 0 0 0  0 0 0 0)
      (V16 1 0 0 0  0 0 0 0  0 0 0 0  0 0 0 0)
   \<and> lane64 \<lparr>arch_pwr7 = True, arch_pwr8 = False, family = GNUC, big_endian = False\<rparr>
      (V16 0xFF 0xFF 0xFF 0xFF  0 0 0 0  0 0 0 0  0 0 0 0) 0 = 0x00000000FFFFFFFF
   \<and> lane64 \<lparr>arch_pwr7 = True, arch_pwr8 = False, family = GNUC, big_endian = False\<rparr>
      (V16 1 0 0 0  0 0 0 0  0 0 0 0  0 0 0 0) 0 = 1
   \<and> vec_add_u64 \<lparr>arch_pwr7 = True, arch_pwr8 = False, family = GNUC, big_endian = False\<rparr>
      (V16 0xFF 0xFF 0xFF 0xFF  0 0 0 0  0 0 0 0  0 0 0 0)
      (V16 1 0 0 0  0 0 0 0  0 0 0 0  0 0 0 0)
     = V16 0 0 0 0  1 0 0 0  0 0 0 0  0 0 0 0
   \<and> lane64 \<lparr>arch_pwr7 = True, arch_pwr8 = False, family = GNUC, big_endian = False\<rparr>
      (V16 0 0 0 0  1 0 0 0  0 0 0 0  0 0 0 0) 0 = 0x0000000100000000
   \<and> VectorAdd64 \<lparr>arch_pwr7 = True, arch_pwr8 = False, family = GNUC, big_endian = False\<rparr>
      (V16 0xFF 0xFF 0xFF 0xFF  0 0 0 0  0 0 0 0  0 0 0 0)
      (V16 1 0 0 0  0 0 0 0  0 0 0 0  0 0 0 0)
     = V16 0 0 0 0  0 0 0 0  0 0 0 0  0 0 0 0"
  by (simp add: VectorAdd64_def vec_add_u32_def vec_add_u64_def vec_addc_def vec_perm_def
      of_lanes32_def of_lanes64_def lane32_def lane64_def be32_def byte_of32_def byte_of64_def
      vec_of_def elem_def zero_vec_def word_cat_eq)

section \<open>Comparison\<close>

lemma VectorEqual_iff: "VectorEqual cfg a b = (a = b)"
proof
  assume eq: "VectorEqual cfg a b"
  have "lane32 cfg a k = lane32 cfg b k" if "k < 4" for k
  proof -
    from that have "k = 0 \<or> k = 1 \<or> k = 2 \<or> k = 3"
      by arith
    with eq show ?thesis
      by (auto simp add: VectorEqual_def vec_all_eq_def split: if_splits)
  qed
  then have "of_lanes32 cfg (lane32 cfg a) = of_lanes32 cfg (lane32 cfg b)"
    unfolding of_lanes32_def by (intro vec_of_cong) simp
  then show "a = b"
    by (simp add: of_lanes32_lane32)
next
  assume "a = b"
  then show "VectorEqual cfg a b"
    by (simp add: VectorEqual_def vec_all_eq_def)
qed

text \<open>
  C10. For every pair of vectors \<open>VectorNotEqual\<close> is the negation of
  \<open>VectorEqual\<close>. Both come from the same comparison of the four 32-bit lanes, and
  \<open>VectorEqual\<close> holds exactly when the two vectors are the same.
\<close>

theorem VectorNotEqual_negates_VectorEqual:
  "VectorNotEqual cfg vec1 vec2 = (\<not> VectorEqual cfg vec1 vec2)
   \<and> VectorEqual cfg vec1 vec2 =
       (lane32 cfg vec1 0 = lane32 cfg vec2 0 \<and> lane32 cfg vec1 1 = lane32 cfg vec2 1
        \<and> lane32 cfg vec1 2 = lane32 cfg vec2 2 \<and> lane32 cfg vec1 3 = lane32 cfg vec2 3)
   \<and> VectorEqual cfg vec1 vec2 = (vec1 = vec2)"
proof (intro conjI)
  show "VectorNotEqual cfg vec1 vec2 = (\<not> VectorEqual cfg vec1 vec2)"
    by (simp add: VectorEqual_def VectorNotEqual_def vec_all_eq_def)
  show "VectorEqual cfg vec1 vec2 =
       (lane32 cfg vec1 0 = lane32 cfg vec2 0 \<and> lane32 cfg vec1 1 = lane32 cfg vec2 1
        \<and> lane32 cfg vec1 2 = lane32 cfg vec2 2 \<and> lane32 cfg vec1 3 = lane32 cfg vec2 3)"
    by (simp add: VectorEqual_def vec_all_eq_def)
  show "VectorEqual cfg vec1 vec2 = (vec1 = vec2)"
    by (rule VectorEqual_iff)
qed

section \<open>The AltiVec load without offset\<close>

text \<open>
  Without an offset the AltiVec load is right for every address: the two aligned loads
  and the permute give the sixteen bytes at \<open>src\<close>.
\<close>

lemma mask5: "n < 32 \<Longrightarrow> unat ((of_nat n :: byte) AND 0x1F) = n"
proof -
  assume n: "n < 32"
  have "(0x1F :: byte) = mask 5"
    by (simp add: mask_eq_exp_minus_1)
  then have "(of_nat n :: byte) AND 0x1F = take_bit 5 (of_nat n)"
    by (simp add: take_bit_eq_mask)
  also have "unat \<dots> = take_bit 5 (unat (of_nat n :: byte))"
    by (simp add: unsigned_take_bit_eq)
  also have "\<dots> = n"
    using n by (simp add: unat_of_nat take_bit_eq_mod)
  finally show ?thesis .
qed

lemma elem_vec_perm:
  "i < 16 \<Longrightarrow> elem (vec_perm a b m) i =
     (let k = unat (elem m i AND 0x1F) in if k < 16 then elem a k else elem b (k - 16))"
  by (simp add: vec_perm_def elem_vec_of)

lemma elem_load16: "i < 16 \<Longrightarrow> elem (load16 mem ea) i = mem (ea + int i)"
  by (simp add: load16_def elem_vec_of)

lemma block_of_next:
  assumes "(src::int) mod 16 \<noteq> 0"
  shows "(src + 15) - (src + 15) mod 16 = src - src mod 16 + 16"
proof -
  have "0 \<le> src mod 16"
    by simp
  with assms have b: "0 < src mod 16" "src mod 16 < 16"
    by simp_all
  have "(src + 15) mod 16 = (src mod 16 + 15) mod 16"
    by (simp add: mod_add_left_eq)
  also have "src mod 16 + 15 = (src mod 16 - 1) + 16"
    by simp
  also have "((src mod 16 - 1) + 16) mod 16 = (src mod 16 - 1) mod 16"
    by (simp only: mod_add_self2)
  also have "\<dots> = src mod 16 - 1"
    using b by (simp add: mod_pos_pos_trivial)
  finally show ?thesis
    by simp
qed

lemma VectorLoad_ALTIVEC_load16: "VectorLoad_ALTIVEC src mem = load16 mem src"
proof (cases "src mod 16 = 0")
  case True
  then show ?thesis
    by (simp add: VectorLoad_ALTIVEC_def IsAlignedOn_def vec_ld_def)
next
  case False
  define sh where "sh = nat (src mod 16)"
  define base where "base = src - src mod 16"
  have sh: "0 < sh" "sh < 16"
    using False by (simp_all add: sh_def)
  have src: "src = base + int sh"
    by (simp add: sh_def base_def)
  have hi: "(src + 15) - (src + 15) mod 16 = base + 16"
    unfolding base_def using False by (rule block_of_next)
  have unfold: "VectorLoad_ALTIVEC src mem =
      vec_perm (load16 mem base) (load16 mem (base + 16)) (vec_of (\<lambda>i. of_nat (sh + i)))"
    using False
    by (simp add: VectorLoad_ALTIVEC_def IsAlignedOn_def vec_ld_def vec_lvsl_def hi
        sh_def [symmetric] base_def [symmetric])
  show ?thesis
  proof (rule vec_eqI)
    fix i :: nat assume i: "i < 16"
    then have "sh + i < 32"
      using sh by simp
    then have k: "unat ((of_nat (sh + i) :: byte) AND 0x1F) = sh + i"
      by (rule mask5)
    have m: "elem (vec_of (\<lambda>i. of_nat (sh + i))) i = (of_nat (sh + i) :: byte)"
      using i by (rule elem_vec_of)
    have "elem (VectorLoad_ALTIVEC src mem) i =
        (if sh + i < 16 then elem (load16 mem base) (sh + i)
         else elem (load16 mem (base + 16)) (sh + i - 16))"
      unfolding unfold by (simp only: elem_vec_perm [OF i] m k Let_def)
    also have "\<dots> =
        (if sh + i < 16 then mem (base + int (sh + i)) else mem (base + 16 + int (sh + i - 16)))"
      using i sh by (simp add: elem_load16)
    also have "\<dots> = mem (src + int i)"
      by (simp add: src add.assoc)
    finally show "elem (VectorLoad_ALTIVEC src mem) i = elem (load16 mem src) i"
      using i by (simp add: elem_load16)
  qed
qed

section \<open>The AltiVec store without offset\<close>

text \<open>
  With offset 0 the AltiVec store is right for every address: the eight partial stores of
  the rotated vector cover the sixteen bytes at \<open>dest\<close>, each byte with its element,
  and touch nothing else.
\<close>

lemma store_elems_twice:
  "store_elems v T (store_elems v S mem) = store_elems v (S \<union> T) mem"
  by (rule ext) (simp add: store_elems_def)

lemma aligned4_mod16:
  fixes x j :: int
  assumes "0 \<le> j" "j < 4"
  shows "(x - x mod 4 + j) mod 16 = (x - x mod 4) mod 16 + j"
proof -
  define k where "k = x div 4"
  have ea: "x - x mod 4 = 4 * k"
    by (simp add: k_def minus_mod_eq_mult_div)
  have m: "(4 * k) mod 16 = 4 * (k mod 4)"
    using mult_mod_right [of 4 k 4] by simp
  have "0 \<le> k mod 4" "k mod 4 < 4"
    by simp_all
  then have r: "0 \<le> 4 * (k mod 4) + j" "4 * (k mod 4) + j < 16"
    using assms by simp_all
  have "(4 * k + j) mod 16 = ((4 * k) mod 16 + j) mod 16"
    by (simp add: mod_add_left_eq)
  also have "\<dots> = 4 * (k mod 4) + j"
    unfolding m using r by (rule mod_pos_pos_trivial)
  finally show ?thesis
    by (simp add: ea m)
qed

lemma aligned2_mod16:
  fixes x j :: int
  assumes "0 \<le> j" "j < 2"
  shows "(x - x mod 2 + j) mod 16 = (x - x mod 2) mod 16 + j"
proof -
  define k where "k = x div 2"
  have ea: "x - x mod 2 = 2 * k"
    by (simp add: k_def minus_mod_eq_mult_div)
  have m: "(2 * k) mod 16 = 2 * (k mod 8)"
    using mult_mod_right [of 2 k 8] by simp
  have "0 \<le> k mod 8" "k mod 8 < 8"
    by simp_all
  then have r: "0 \<le> 2 * (k mod 8) + j" "2 * (k mod 8) + j < 16"
    using assms by simp_all
  have "(2 * k + j) mod 16 = ((2 * k) mod 16 + j) mod 16"
    by (simp add: mod_add_left_eq)
  also have "\<dots> = 2 * (k mod 8) + j"
    unfolding m using r by (rule mod_pos_pos_trivial)
  finally show ?thesis
    by (simp add: ea m)
qed

lemma vec_ste_u8_elems: "vec_ste_u8 v off p mem = store_elems v {p + off ..< p + off + 1} mem"
  by (rule ext) (simp add: vec_ste_u8_def store_elems_def Let_def)

lemma vec_ste_u16_elems:
  "vec_ste_u16 v off p mem =
     store_elems v {(p + off) - (p + off) mod 2 ..< (p + off) - (p + off) mod 2 + 2} mem"
proof (rule ext)
  fix a
  define ea where "ea = (p + off) - (p + off) mod 2"
  have n: "nat ((ea + 1) mod 16) = nat (ea mod 16) + 1"
    unfolding ea_def by (simp add: aligned2_mod16 nat_add_distrib)
  have "a \<in> {ea ..< ea + 2} \<longleftrightarrow> a = ea \<or> a = ea + 1"
    by auto
  then show "vec_ste_u16 v off p mem a =
     store_elems v {(p + off) - (p + off) mod 2 ..< (p + off) - (p + off) mod 2 + 2} mem a"
    unfolding vec_ste_u16_def store_elems_def Let_def ea_def [symmetric]
    by (auto simp add: n)
qed

lemma vec_ste_u32_elems:
  "vec_ste_u32 v off p mem =
     store_elems v {(p + off) - (p + off) mod 4 ..< (p + off) - (p + off) mod 4 + 4} mem"
proof (rule ext)
  fix a
  define ea where "ea = (p + off) - (p + off) mod 4"
  have n: "nat ((ea + 1) mod 16) = nat (ea mod 16) + 1"
    "nat ((ea + 2) mod 16) = nat (ea mod 16) + 2"
    "nat ((ea + 3) mod 16) = nat (ea mod 16) + 3"
    unfolding ea_def by (simp_all add: aligned4_mod16 nat_add_distrib)
  have "a \<in> {ea ..< ea + 4} \<longleftrightarrow> a = ea \<or> a = ea + 1 \<or> a = ea + 2 \<or> a = ea + 3"
    by auto
  then show "vec_ste_u32 v off p mem a =
     store_elems v {(p + off) - (p + off) mod 4 ..< (p + off) - (p + off) mod 4 + 4} mem a"
    unfolding vec_ste_u32_def store_elems_def Let_def ea_def [symmetric]
    by (auto simp add: n)
qed

lemma rotate_index:
  fixes a dest :: int
  assumes "dest \<le> a" "a < dest + 16"
  shows "(16 - nat (dest mod 16) + nat (a mod 16)) mod 16 = nat (a - dest)"
proof -
  have b: "0 \<le> dest mod 16" "dest mod 16 < 16" "0 \<le> a mod 16"
    by simp_all
  have "int (16 - nat (dest mod 16) + nat (a mod 16)) = 16 - dest mod 16 + a mod 16"
    using b by (simp add: of_nat_diff)
  then have "int ((16 - nat (dest mod 16) + nat (a mod 16)) mod 16)
      = (16 - dest mod 16 + a mod 16) mod 16"
    by (simp only: zmod_int of_nat_numeral)
  also have "16 - dest mod 16 + a mod 16 = (a mod 16 - dest mod 16) + 16"
    by simp
  also have "((a mod 16 - dest mod 16) + 16) mod 16 = (a mod 16 - dest mod 16) mod 16"
    by (simp only: mod_add_self2)
  also have "\<dots> = (a - dest) mod 16"
    by (simp only: mod_diff_eq)
  also have "\<dots> = a - dest"
    using assms by (simp add: mod_pos_pos_trivial)
  finally show ?thesis
    by linarith
qed

lemma lvsr_perm:
  assumes "i < 16" and "sh < 16"
  shows "elem (vec_perm data data (vec_of (\<lambda>i. of_nat (16 - sh + i)))) i
     = elem data ((16 - sh + i) mod 16)"
proof -
  have "16 - sh + i < 32"
    using assms by simp
  then have k: "unat ((of_nat (16 - sh + i) :: byte) AND 0x1F) = 16 - sh + i"
    by (rule mask5)
  have m: "elem (vec_of (\<lambda>i. of_nat (16 - sh + i))) i = (of_nat (16 - sh + i) :: byte)"
    using assms(1) by (rule elem_vec_of)
  have "elem (vec_perm data data (vec_of (\<lambda>i. of_nat (16 - sh + i)))) i
      = (if 16 - sh + i < 16 then elem data (16 - sh + i) else elem data (16 - sh + i - 16))"
    by (simp only: elem_vec_perm [OF assms(1)] m k Let_def)
  also have "\<dots> = elem data ((16 - sh + i) mod 16)"
    using \<open>16 - sh + i < 32\<close> by (simp add: mod_if)
  finally show ?thesis .
qed

lemma round4: "(x::int) mod 4 = r \<Longrightarrow> (x + c) mod 4 = (r + c) mod 4"
  using mod_add_left_eq [of x 4 c] by simp

lemma round2: "(x::int) mod 4 = r \<Longrightarrow> (x + c) mod 2 = (r + c) mod 2"
proof -
  assume "x mod 4 = r"
  then have "x mod 2 = r mod 2"
    using mod_mod_cancel [of 2 4 x] by simp
  then show ?thesis
    using mod_add_left_eq [of x 2 c] mod_add_left_eq [of r 2 c] by simp
qed

lemma ste_cover:
  fixes dest :: int
  shows "{dest ..< dest + 1}
     \<union> {(dest + 1) - (dest + 1) mod 2 ..< (dest + 1) - (dest + 1) mod 2 + 2}
     \<union> {(dest + 3) - (dest + 3) mod 4 ..< (dest + 3) - (dest + 3) mod 4 + 4}
     \<union> {(dest + 4) - (dest + 4) mod 4 ..< (dest + 4) - (dest + 4) mod 4 + 4}
     \<union> {(dest + 8) - (dest + 8) mod 4 ..< (dest + 8) - (dest + 8) mod 4 + 4}
     \<union> {(dest + 12) - (dest + 12) mod 4 ..< (dest + 12) - (dest + 12) mod 4 + 4}
     \<union> {(dest + 14) - (dest + 14) mod 2 ..< (dest + 14) - (dest + 14) mod 2 + 2}
     \<union> {dest + 15 ..< dest + 15 + 1}
     = {dest ..< dest + 16}"
proof -
  have "0 \<le> dest mod 4" "dest mod 4 < 4"
    by simp_all
  then consider "dest mod 4 = 0" | "dest mod 4 = 1" | "dest mod 4 = 2" | "dest mod 4 = 3"
    by linarith
  then show ?thesis
  proof cases
    case 1
    show ?thesis
      unfolding round4 [OF 1] round2 [OF 1] by auto
  next
    case 2
    show ?thesis
      unfolding round4 [OF 2] round2 [OF 2] by auto
  next
    case 3
    show ?thesis
      unfolding round4 [OF 3] round2 [OF 3] by auto
  next
    case 4
    show ?thesis
      unfolding round4 [OF 4] round2 [OF 4] by auto
  qed
qed

lemma VectorStore_ALTIVEC_store16:
  "VectorStore_ALTIVEC_off data 0 dest mem = store16 data dest mem"
proof (cases "dest mod 16 = 0")
  case True
  then show ?thesis
    by (simp add: VectorStore_ALTIVEC_off_def IsAlignedOn_def vec_st_def)
next
  case False
  define sh where "sh = nat (dest mod 16)"
  define perm where "perm = vec_perm data data (vec_of (\<lambda>i. of_nat (16 - sh + i)))"
  have sh: "sh < 16"
    by (simp add: sh_def)
  have "VectorStore_ALTIVEC_off data 0 dest mem = store_elems perm {dest ..< dest + 16} mem"
    using False
    by (simp only: VectorStore_ALTIVEC_off_def IsAlignedOn_def vec_lvsr_def Let_def if_False
        vec_ste_u8_elems vec_ste_u16_elems vec_ste_u32_elems store_elems_twice
        add_0_right sh_def [symmetric] perm_def [symmetric] Un_assoc [symmetric])
      (simp only: ste_cover)
  also have "\<dots> = store16 data dest mem"
  proof (rule ext)
    fix a
    show "store_elems perm {dest ..< dest + 16} mem a = store16 data dest mem a"
    proof (cases "dest \<le> a \<and> a < dest + 16")
      case True
      have "nat (a mod 16) < 16"
        by simp
      then have "elem perm (nat (a mod 16)) = elem data ((16 - sh + nat (a mod 16)) mod 16)"
        unfolding perm_def using sh by (rule lvsr_perm)
      also have "(16 - sh + nat (a mod 16)) mod 16 = nat (a - dest)"
        unfolding sh_def using True by (intro rotate_index) simp_all
      finally show ?thesis
        using True by (simp add: store_elems_def store16_def)
    next
      case False
      then show ?thesis
        by (auto simp add: store_elems_def store16_def)
    qed
  qed
  finally show ?thesis .
qed

section \<open>Native and big-endian loads and stores\<close>

lemma VectorLoad_load16: "VectorLoad cfg src mem = load16 mem src"
  by (simp add: VectorLoad_def vec_xl_def vec_vsx_ld_def VectorLoad_ALTIVEC_load16)

lemma VectorStore_store16: "VectorStore cfg data dest mem = store16 data dest mem"
  by (simp add: VectorStore_def vec_xst_def vec_vsx_st_def VectorStore_ALTIVEC_store16)

lemma Reverse_elems: "Reverse v = vec_of (\<lambda>i. elem v (15 - i))"
  by (cases v) (simp add: Reverse_def vec_perm_def vec_of_def elem_def)

lemma elem_Reverse: "i < 16 \<Longrightarrow> elem (Reverse v) i = elem v (15 - i)"
  by (simp add: Reverse_elems elem_vec_of)

lemma store16_cong:
  assumes "\<And>i. i < 16 \<Longrightarrow> elem u i = elem w i"
  shows "store16 u ea mem = store16 w ea mem"
proof (rule ext)
  fix a
  show "store16 u ea mem a = store16 w ea mem a"
  proof (cases "ea \<le> a \<and> a < ea + 16")
    case True
    then have "nat (a - ea) < 16"
      by linarith
    then show ?thesis
      by (simp add: store16_def assms)
  next
    case False
    then show ?thesis
      by (auto simp add: store16_def)
  qed
qed

lemma store16_load16: "store16 (load16 mem ea) ea mem = mem"
proof (rule ext)
  fix a
  show "store16 (load16 mem ea) ea mem a = mem a"
  proof (cases "ea \<le> a \<and> a < ea + 16")
    case True
    then have n: "nat (a - ea) < 16" and e: "ea + int (nat (a - ea)) = a"
      by linarith+
    have "elem (load16 mem ea) (nat (a - ea)) = mem (ea + int (nat (a - ea)))"
      using n by (rule elem_load16)
    then have "elem (load16 mem ea) (nat (a - ea)) = mem a"
      by (simp only: e)
    then show ?thesis
      using True by (simp add: store16_def)
  next
    case False
    then show ?thesis
      by (auto simp add: store16_def)
  qed
qed

lemma vec_xl_be_load16:
  "vec_xl_be cfg 0 src mem = (if big_endian cfg then load16 mem src else Reverse (load16 mem src))"
  unfolding vec_xl_be_def Reverse_elems
  by (auto intro!: vec_of_cong simp add: elem_load16 of_nat_diff algebra_simps)

lemma vec_xst_be_store16:
  "vec_xst_be cfg v 0 dest mem = store16 (if big_endian cfg then v else Reverse v) dest mem"
  unfolding vec_xst_be_def
  by (auto intro!: ext simp add: store16_def elem_Reverse)

lemma VectorLoadBE_load16:
  "VectorLoadBE cfg src mem = (if big_endian cfg then load16 mem src else Reverse (load16 mem src))"
  by (simp add: VectorLoadBE_def vec_xl_be_load16 vec_vsx_ld_def VectorLoad_load16)

lemma VectorStoreBE_store16:
  "VectorStoreBE cfg v dest mem = store16 (if big_endian cfg then v else Reverse v) dest mem"
  by (simp add: VectorStoreBE_def vec_xst_be_store16 vec_vsx_st_def VectorStore_store16)

text \<open>
  C3. \<open>VectorStoreBE\<close> of \<open>VectorLoadBE\<close> writes the sixteen bytes it read: to another
  buffer it copies them and changes nothing else, and to the buffer they came from it
  leaves the memory as it was. This holds in every configuration, so on both byte orders.
  On a little-endian host the load is the reversal of the sixteen bytes read and the store
  writes the reversal of the vector; on a big-endian host neither reverses.
\<close>

theorem VectorStoreBE_VectorLoadBE:
  "VectorStoreBE cfg (VectorLoadBE cfg buf mem) buf mem = mem
   \<and> VectorStoreBE cfg (VectorLoadBE cfg src mem) dest mem = store16 (load16 mem src) dest mem
   \<and> VectorLoadBE cfg src mem =
       (if big_endian cfg then load16 mem src else Reverse (load16 mem src))
   \<and> VectorStoreBE cfg v dest mem =
       store16 (if big_endian cfg then v else Reverse v) dest mem"
proof -
  have twice: "elem (Reverse (Reverse u)) i = elem u i" if "i < 16" for u i
    using that by (simp add: elem_Reverse)
  have copy: "VectorStoreBE cfg (VectorLoadBE cfg a mem) b mem = store16 (load16 mem a) b mem"
    for a b
  proof (cases "big_endian cfg")
    case True
    then show ?thesis
      by (simp add: VectorStoreBE_store16 VectorLoadBE_load16)
  next
    case False
    then have "VectorStoreBE cfg (VectorLoadBE cfg a mem) b mem
        = store16 (Reverse (Reverse (load16 mem a))) b mem"
      by (simp add: VectorStoreBE_store16 VectorLoadBE_load16)
    also have "\<dots> = store16 (load16 mem a) b mem"
      by (rule store16_cong) (rule twice)
    finally show ?thesis .
  qed
  show ?thesis
    unfolding copy by (simp add: store16_load16 VectorLoadBE_load16 VectorStoreBE_store16)
qed

section \<open>Loads and stores with an offset\<close>

text \<open>With POWER7 the offset overloads move the sixteen bytes at the pointer plus the offset.\<close>

lemma VectorLoad_off_pwr7:
  "arch_pwr7 cfg \<Longrightarrow> VectorLoad_off cfg off src mem = load16 mem (src + off)"
  by (simp add: VectorLoad_off_def vec_xl_def vec_vsx_ld_def)

lemma VectorStore_off_pwr7:
  "arch_pwr7 cfg \<Longrightarrow> VectorStore_off cfg data off dest mem = store16 data (dest + off) mem"
  by (simp add: VectorStore_off_def vec_xst_def vec_vsx_st_def)

text \<open>
  C1. For every buffer and every byte offset the load returns the sixteen bytes at
  \<open>src + off\<close>. The POWER7 path does (\<open>VectorLoad_off_pwr7\<close>); the AltiVec path does
  not. It tests the alignment of \<open>src\<close> where its documentation has the effective
  address, and it takes its second aligned block at \<open>src + 15\<close>, not at
  \<open>src + off + 15\<close>. In the memory that holds at each address the address itself: with
  \<open>src = 33\<close> and \<open>off = 16\<close> the last byte returned is the one at 48, not the one
  at 64; with \<open>src = 32\<close> and \<open>off = 1\<close> the bytes returned are those at 32, not
  those at 33.
\<close>

theorem VectorLoad_off_altivec_failing_input:
  "VectorLoad_off \<lparr>arch_pwr7 = False, arch_pwr8 = False, family = GNUC, big_endian = True\<rparr>
      16 33 address_memory \<noteq> load16 address_memory (33 + 16)
   \<and> VectorLoad_off \<lparr>arch_pwr7 = False, arch_pwr8 = False, family = GNUC, big_endian = True\<rparr>
      1 32 address_memory \<noteq> load16 address_memory (32 + 1)
   \<and> VectorLoad_off \<lparr>arch_pwr7 = False, arch_pwr8 = False, family = GNUC, big_endian = True\<rparr>
      16 33 address_memory
     = V16 49 50 51 52  53 54 55 56  57 58 59 60  61 62 63 48
   \<and> load16 address_memory (33 + 16)
     = V16 49 50 51 52  53 54 55 56  57 58 59 60  61 62 63 64
   \<and> VectorLoad_off \<lparr>arch_pwr7 = False, arch_pwr8 = False, family = GNUC, big_endian = True\<rparr>
      1 32 address_memory
     = V16 32 33 34 35  36 37 38 39  40 41 42 43  44 45 46 47
   \<and> load16 address_memory (32 + 1)
     = V16 33 34 35 36  37 38 39 40  41 42 43 44  45 46 47 48"
  by (simp add: VectorLoad_off_def VectorLoad_ALTIVEC_off_def IsAlignedOn_def vec_ld_def
      vec_lvsl_def vec_perm_def load16_def vec_of_def elem_def address_memory_def)

text \<open>
  C2. For every vector, buffer and byte offset the store writes the sixteen bytes of the
  vector at \<open>dest + off\<close> and nothing else. The POWER7 path does
  (\<open>VectorStore_off_pwr7\<close>); the AltiVec path does not. Its partial stores go to
  \<open>dest\<close>, \<open>dest + 1\<close>, ..., \<open>dest + 15\<close> whatever the offset. With
  \<open>dest = 33\<close> and \<open>off = 16\<close> in a memory of zeros, the vector 1, 2, ..., 16 is
  written at 33..48, outside the sixteen bytes at 49..64, which stay zero.
\<close>

theorem VectorStore_off_altivec_failing_input:
  "VectorStore_off \<lparr>arch_pwr7 = False, arch_pwr8 = False, family = GNUC, big_endian = True\<rparr>
       (V16 1 2 3 4  5 6 7 8  9 10 11 12  13 14 15 16) 16 33 zero_memory
     \<noteq> store16 (V16 1 2 3 4  5 6 7 8  9 10 11 12  13 14 15 16) (33 + 16) zero_memory
   \<and> map (VectorStore_off \<lparr>arch_pwr7 = False, arch_pwr8 = False, family = GNUC, big_endian = True\<rparr>
          (V16 1 2 3 4  5 6 7 8  9 10 11 12  13 14 15 16) 16 33 zero_memory)
       [33, 34, 35, 36, 37, 38, 39, 40, 41, 42, 43, 44, 45, 46, 47, 48]
     = [1, 2, 3, 4, 5, 6, 7, 8, 9, 10, 11, 12, 13, 14, 15, 16]
   \<and> map (VectorStore_off \<lparr>arch_pwr7 = False, arch_pwr8 = False, family = GNUC, big_endian = True\<rparr>
          (V16 1 2 3 4  5 6 7 8  9 10 11 12  13 14 15 16) 16 33 zero_memory)
       [49, 50, 51, 52, 53, 54, 55, 56, 57, 58, 59, 60, 61, 62, 63, 64]
     = [0, 0, 0, 0, 0, 0, 0, 0, 0, 0, 0, 0, 0, 0, 0, 0]
   \<and> map (store16 (V16 1 2 3 4  5 6 7 8  9 10 11 12  13 14 15 16) (33 + 16) zero_memory)
       [49, 50, 51, 52, 53, 54, 55, 56, 57, 58, 59, 60, 61, 62, 63, 64]
     = [1, 2, 3, 4, 5, 6, 7, 8, 9, 10, 11, 12, 13, 14, 15, 16]"
proof -
  let ?stored = "VectorStore_off \<lparr>arch_pwr7 = False, arch_pwr8 = False, family = GNUC, big_endian = True\<rparr>
      (V16 1 2 3 4  5 6 7 8  9 10 11 12  13 14 15 16) 16 33 zero_memory"
  let ?wanted = "store16 (V16 1 2 3 4  5 6 7 8  9 10 11 12  13 14 15 16) (33 + 16) zero_memory"
  have stored: "?stored = zero_memory
      (33 := 1, 34 := 2, 35 := 3, 36 := 4, 37 := 5, 38 := 6, 39 := 7, 40 := 8,
       41 := 9, 42 := 10, 43 := 11, 44 := 12, 45 := 13, 46 := 14, 47 := 15, 48 := 16)"
    by (simp add: VectorStore_off_def VectorStore_ALTIVEC_off_def IsAlignedOn_def
        vec_lvsr_def vec_perm_def vec_ste_u8_def vec_ste_u16_def vec_ste_u32_def
        vec_of_def elem_def)
  have "?stored 49 = 0" and "?wanted 49 = 1"
    by (simp_all add: stored store16_def elem_def zero_memory_def)
  then have "?stored \<noteq> ?wanted"
    by auto
  then show ?thesis
    by (simp add: stored) (simp add: store16_def elem_def zero_memory_def)
qed

section \<open>AES and SHA rounds: dispatch and failure\<close>

text \<open>
  Without \<^verbatim>\<open>_ARCH_PWR8\<close> the failure is that of the build: the six functions are not
  declared, and there is no call of them.
\<close>

lemma crypto_not_declared:
  "\<not> arch_pwr8 cfg \<Longrightarrow>
     VectorEncrypt cfg vcipher gnu_vcipher state key = Inl NotDeclared
     \<and> VectorEncryptLast cfg vcipherlast gnu_vcipherlast state key = Inl NotDeclared
     \<and> VectorDecrypt cfg vncipher gnu_vncipher state key = Inl NotDeclared
     \<and> VectorDecryptLast cfg vncipherlast gnu_vncipherlast state key = Inl NotDeclared
     \<and> VectorSHA256 cfg vshasigmaw gnu_vshasigmaw func subfunc vec = Inl NotDeclared
     \<and> VectorSHA512 cfg vshasigmad gnu_vshasigmad func subfunc vec = Inl NotDeclared"
  by (simp add: VectorEncrypt_def VectorEncryptLast_def VectorDecrypt_def
      VectorDecryptLast_def VectorSHA256_def VectorSHA512_def)



end
